theory Spec2Isabelle
  imports Complex_Main
begin

section \<open>Values, exceptions and the observable trace\<close>

text \<open>
  The router (\<^verbatim>\<open>src/routers/vector_router.py\<close>) handles dynamically typed
  JSON-like data: pages, query responses, store results and RAG answers are dictionaries
  whose contents are read with \<^verbatim>\<open>d[k]\<close>, \<^verbatim>\<open>d.get(k, default)\<close>,
  \<^verbatim>\<open>len\<close>, iteration and truthiness tests.  \<open>pyval\<close> is that value
  universe (floats are left out: no value is ever computed with one).  A dictionary is an
  association list with distinct keys in insertion order, read with \<open>map_of\<close>.
\<close>

datatype pyval =
    PNone
  | PBool bool
  | PInt int
  | PStr string
  | PList "pyval list"
  | PDict "(string \<times> pyval) list"

type_synonym pydict = "(string \<times> pyval) list"

text \<open>
  Exceptions, all of them subclasses of \<^verbatim>\<open>Exception\<close> (what the handlers'
  \<^verbatim>\<open>except Exception\<close> catches).  \<open>Raised m\<close> is an exception raised by a
  collaborator, with message \<open>m\<close>; the others are raised by the interpreter on the
  router's own expressions.  \<open>str_exn\<close> is \<^verbatim>\<open>str(e)\<close>; the wording of the
  interpreter's \<open>TypeError\<close> and \<open>AttributeError\<close> messages is CPython's.
\<close>

datatype exn =
    KeyError string
  | TypeError string
  | AttributeError string
  | Raised string

fun str_exn :: "exn \<Rightarrow> string" where
  "str_exn (KeyError k) = [CHR 0x27] @ k @ [CHR 0x27]"
| "str_exn (TypeError m) = m"
| "str_exn (AttributeError m) = m"
| "str_exn (Raised m) = m"

fun type_name :: "pyval \<Rightarrow> string" where
  "type_name PNone = ''NoneType''"
| "type_name (PBool _) = ''bool''"
| "type_name (PInt _) = ''int''"
| "type_name (PStr _) = ''str''"
| "type_name (PList _) = ''list''"
| "type_name (PDict _) = ''dict''"

text \<open>Truthiness, as \<^verbatim>\<open>if v:\<close> and \<^verbatim>\<open>while v and ...\<close> test it.\<close>

fun truthy :: "pyval \<Rightarrow> bool" where
  "truthy PNone = False"
| "truthy (PBool b) = b"
| "truthy (PInt i) = (i \<noteq> 0)"
| "truthy (PStr s) = (s \<noteq> [])"
| "truthy (PList xs) = (xs \<noteq> [])"
| "truthy (PDict d) = (d \<noteq> [])"

text \<open>\<^verbatim>\<open>len(v)\<close>.\<close>

fun py_len :: "pyval \<Rightarrow> exn + nat" where
  "py_len (PStr s) = Inr (length s)"
| "py_len (PList xs) = Inr (length xs)"
| "py_len (PDict d) = Inr (length d)"
| "py_len v = Inl (TypeError (''object of type '' @ [CHR 0x27] @ type_name v @ [CHR 0x27] @ '' has no len()''))"

text \<open>
  The elements that \<^verbatim>\<open>for x in v\<close> and \<^verbatim>\<open>list.extend(v)\<close> run through:
  a list's elements, a string's characters, a dictionary's keys.
\<close>

fun py_iter :: "pyval \<Rightarrow> exn + pyval list" where
  "py_iter (PList xs) = Inr xs"
| "py_iter (PStr s) = Inr (map (\<lambda>c. PStr [c]) s)"
| "py_iter (PDict d) = Inr (map (\<lambda>kv. PStr (fst kv)) d)"
| "py_iter v = Inl (TypeError ([CHR 0x27] @ type_name v @ [CHR 0x27] @ '' object is not iterable''))"

text \<open>\<^verbatim>\<open>d.get(k, default)\<close> and \<^verbatim>\<open>d[k]\<close> on a dictionary.\<close>

definition dict_get :: "pydict \<Rightarrow> string \<Rightarrow> pyval \<Rightarrow> pyval" where
  "dict_get d k dflt = (case map_of d k of None \<Rightarrow> dflt | Some v \<Rightarrow> v)"

definition dict_item :: "pydict \<Rightarrow> string \<Rightarrow> exn + pyval" where
  "dict_item d k = (case map_of d k of None \<Rightarrow> Inl (KeyError k) | Some v \<Rightarrow> Inr v)"

text \<open>\<^verbatim>\<open>d[k] = v\<close>: an existing key keeps its position, a new one goes last.\<close>

fun dict_set :: "pydict \<Rightarrow> string \<Rightarrow> pyval \<Rightarrow> pydict" where
  "dict_set [] k v = [(k, v)]"
| "dict_set (p # ps) k v = (if fst p = k then (k, v) # ps else p # dict_set ps k v)"

text \<open>The same three operations on a value that need not be a dictionary.\<close>

fun py_get :: "pyval \<Rightarrow> string \<Rightarrow> pyval \<Rightarrow> exn + pyval" where
  "py_get (PDict d) k dflt = Inr (dict_get d k dflt)"
| "py_get v k dflt =
     Inl (AttributeError ([CHR 0x27] @ type_name v @ [CHR 0x27] @ '' object has no attribute '' @ [CHR 0x27] @ ''get'' @ [CHR 0x27]))"

fun py_getitem :: "pyval \<Rightarrow> string \<Rightarrow> exn + pyval" where
  "py_getitem (PDict d) k = dict_item d k"
| "py_getitem (PList xs) k = Inl (TypeError ''list indices must be integers or slices, not str'')"
| "py_getitem (PStr s) k = Inl (TypeError (''string indices must be integers, not '' @ [CHR 0x27] @ ''str'' @ [CHR 0x27]))"
| "py_getitem v k = Inl (TypeError ([CHR 0x27] @ type_name v @ [CHR 0x27] @ '' object is not subscriptable''))"

fun py_setitem :: "pyval \<Rightarrow> string \<Rightarrow> pyval \<Rightarrow> exn + pyval" where
  "py_setitem (PDict d) k v = Inr (PDict (dict_set d k v))"
| "py_setitem (PList xs) k v = Inl (TypeError ''list indices must be integers or slices, not str'')"
| "py_setitem w k v =
     Inl (TypeError ([CHR 0x27] @ type_name w @ [CHR 0x27] @ '' object does not support item assignment''))"

text \<open>
  \<^verbatim>\<open>n += v\<close> on an integer counter: an \<open>int\<close> or a \<open>bool\<close> (a subclass of
  \<open>int\<close>) is added, anything else is a \<open>TypeError\<close>.
\<close>

fun int_add :: "int \<Rightarrow> pyval \<Rightarrow> exn + int" where
  "int_add n (PInt i) = Inr (n + i)"
| "int_add n (PBool b) = Inr (n + (if b then 1 else 0))"
| "int_add n v =
     Inl (TypeError (''unsupported operand type(s) for +=: '' @ [CHR 0x27] @ ''int'' @ [CHR 0x27] @ '' and '' @ [CHR 0x27] @ type_name v @ [CHR 0x27]))"

text \<open>The aggregate counters of one background run (\<^verbatim>\<open>sync_results\<close>, lines 141-146).\<close>

record sync_results =
  success :: int
  skipped :: int
  errors :: int
  total_chunks :: int

text \<open>
  A log message is the f-string the source formats, kept as the list of its literal and
  interpolated parts (\<open>Str e\<close> is \<^verbatim>\<open>{str(e)}\<close>).
\<close>

datatype fpart =
    Lit string
  | Str exn
  | Val pyval
  | Num nat
  | Counters sync_results

text \<open>
  What a run does to the outside world, in order: the calls to the collaborators (with
  their arguments) and the log records.
\<close>

datatype event =
    EnsureVectorIndex
  | GetStats
  | GenerateEmbedding string
  | AnswerQuestion string
  | DatabasesQuery pydict
  | BlocksChildrenList pyval
  | ExtractBlockContent pyval
  | StoreNotionPage pyval pyval string bool
  | LogInfo "fpart list"
  | LogError "fpart list"

datatype http_exception = HTTPException (status_code: nat) (detail: string)

section \<open>The collaborators\<close>

text \<open>
  \<open>VectorDB\<close>, \<open>RAGService\<close>, the Notion client and \<open>NotionUtils\<close> are imported by
  the router and are parameters here: each operation either raises or returns.  The
  operations the router subscripts return dictionaries, \<open>generate_embedding\<close> returns a
  vector, of which only the length is read.
\<close>

record vector_db =
  ensure_vector_index :: "exn + unit"
  get_stats :: "exn + pydict"
  generate_embedding :: "string \<Rightarrow> exn + real list"
  embedding_model_name :: pyval
  store_notion_page :: "pyval \<Rightarrow> pyval \<Rightarrow> string \<Rightarrow> bool \<Rightarrow> exn + pydict"

record rag_service =
  model_name :: pyval
  answer_question :: "string \<Rightarrow> exn + pydict"

record notion_client =
  databases_query :: "pydict \<Rightarrow> exn + pydict"
  blocks_children_list :: "pyval \<Rightarrow> exn + pydict"

record notion_utils =
  extract_block_content :: "pyval \<Rightarrow> exn + pyval"

section \<open>Chat endpoint (lines 205-236)\<close>

text \<open>
  The list comprehension of lines 227-230: \<^verbatim>\<open>source.get("page_url")\<close> is evaluated
  for every source (and raises on a source that is not a dictionary); the truthy values
  are kept, in order.
\<close>

fun source_urls :: "pyval list \<Rightarrow> exn + pyval list" where
  "source_urls [] = Inr []"
| "source_urls (source # rest) =
     (case py_get source ''page_url'' PNone of
        Inl e \<Rightarrow> Inl e
      | Inr url \<Rightarrow>
          (case source_urls rest of
             Inl e \<Rightarrow> Inl e
           | Inr urls \<Rightarrow> Inr (if truthy url then url # urls else urls)))"

text \<open>Lines 216-232, the reshaping of the RAG answer inside the \<^verbatim>\<open>try\<close>.\<close>

definition chat_response :: "string \<Rightarrow> pydict \<Rightarrow> exn + pydict" where
  "chat_response question answer =
     (case dict_item answer ''answer'' of
        Inl e \<Rightarrow> Inl e
      | Inr a \<Rightarrow>
     (case dict_item answer ''context_used'' of
        Inl e \<Rightarrow> Inl e
      | Inr c \<Rightarrow>
     (case py_len (dict_get answer ''sources'' (PList [])) of
        Inl e \<Rightarrow> Inl e
      | Inr n \<Rightarrow>
          (let response =
                 [(''question'', PStr question),
                  (''answer'', a),
                  (''context_used'', c),
                  (''sources_count'', PInt (int n)),
                  (''model'', dict_get answer ''model_used'' PNone)]
           in if truthy (dict_get answer ''sources'' PNone)
              then (case dict_item answer ''sources'' of
                      Inl e \<Rightarrow> Inl e
                    | Inr srcs \<Rightarrow>
                   (case py_iter srcs of
                      Inl e \<Rightarrow> Inl e
                    | Inr sources \<Rightarrow>
                   (case source_urls sources of
                      Inl e \<Rightarrow> Inl e
                    | Inr urls \<Rightarrow> Inr (dict_set response ''source_urls'' (PList urls)))))
              else Inr response))))"

definition chat_with_knowledge_base ::
  "string \<Rightarrow> rag_service \<Rightarrow> (http_exception + pydict) \<times> event list" where
  "chat_with_knowledge_base question rag =
     (case (case answer_question rag question of
              Inl e \<Rightarrow> Inl e
            | Inr answer \<Rightarrow> chat_response question answer) of
        Inr response \<Rightarrow> (Inr response, [AnswerQuestion question])
      | Inl e \<Rightarrow>
          (Inl (HTTPException 500 (str_exn e)),
           [AnswerQuestion question, LogError [Lit ''Error in chat: '', Str e]]))"

section \<open>Startup hook (lines 24-34)\<close>

text \<open>
  The context manager up to its \<^verbatim>\<open>yield\<close>.  The result is \<open>Inr ()\<close> when the
  \<^verbatim>\<open>yield\<close> is reached, which is where the framework starts serving requests, and
  \<open>Inl e\<close> when an exception leaves the startup code.
\<close>

definition lifespan :: "vector_db \<Rightarrow> (exn + unit) \<times> event list" where
  "lifespan db =
     (case ensure_vector_index db of
        Inr _ \<Rightarrow>
          (Inr (), [EnsureVectorIndex, LogInfo [Lit ''Vector database initialized successfully'']])
      | Inl e \<Rightarrow>
          (Inr (), [EnsureVectorIndex, LogError [Lit ''Error initializing vector database: '', Str e]]))"

section \<open>Configuration (line 40)\<close>

text \<open>
  \<^verbatim>\<open>s.split(",")\<close>, and the list of database identifiers read from the environment
  variable \<^verbatim>\<open>NOTION_DATABASE_IDS\<close> (\<open>None\<close> when it is not set).
\<close>

fun split_comma :: "string \<Rightarrow> string list" where
  "split_comma [] = [] # []"
| "split_comma (c # cs) =
     (if c = CHR '','' then [] # split_comma cs
      else (case split_comma cs of
              [] \<Rightarrow> [c] # []
            | w # ws \<Rightarrow> (c # w) # ws))"

definition notion_database_ids :: "string option \<Rightarrow> string list" where
  "notion_database_ids var =
     (case var of
        None \<Rightarrow> []
      | Some v \<Rightarrow> if v \<noteq> [] then split_comma v else [])"

section \<open>Statistics and health endpoints (lines 62-70, 177-202)\<close>

definition get_vector_db_stats :: "vector_db \<Rightarrow> (http_exception + pydict) \<times> event list" where
  "get_vector_db_stats db =
     (case get_stats db of
        Inr stats \<Rightarrow> (Inr stats, [GetStats])
      | Inl e \<Rightarrow>
          (Inl (HTTPException 500 (str_exn e)),
           [GetStats, LogError [Lit ''Error getting stats: '', Str e]]))"

definition health_failure :: "exn \<Rightarrow> event list \<Rightarrow> (http_exception + pydict) \<times> event list" where
  "health_failure e calls =
     (Inl (HTTPException 503 (''Service unavailable: '' @ str_exn e)),
      calls @ [LogError [Lit ''Vector health check failed: '', Str e]])"

definition vector_health_check ::
  "vector_db \<Rightarrow> rag_service \<Rightarrow> (http_exception + pydict) \<times> event list" where
  "vector_health_check db rag =
     (case get_stats db of
        Inl e \<Rightarrow> health_failure e [GetStats]
      | Inr stats \<Rightarrow>
     (case generate_embedding db ''test'' of
        Inl e \<Rightarrow> health_failure e [GetStats, GenerateEmbedding ''test'']
      | Inr test_embedding \<Rightarrow>
          (Inr [(''status'', PStr ''healthy''),
                (''vector_db'', PStr ''connected''),
                (''embedding_model'', embedding_model_name db),
                (''embedding_dimension'', PInt (int (length test_embedding))),
                (''google_ai_model'', model_name rag),
                (''total_chunks'', dict_get stats ''total_chunks'' (PInt 0)),
                (''unique_pages'', dict_get stats ''unique_pages'' (PInt 0))],
           [GetStats, GenerateEmbedding ''test''])))"

section \<open>Sync trigger (lines 46-48, 72-99)\<close>

record sync_request =
  force_update :: bool
  page_limit :: "int option"

text \<open>
  One scheduled call of \<^verbatim>\<open>_sync_database_background\<close> with its five arguments, as
  \<^verbatim>\<open>add_task\<close> receives them.
\<close>

record sync_task =
  task_database_id :: string
  task_force_update :: bool
  task_page_limit :: "int option"
  task_db :: vector_db
  task_client :: notion_client

text \<open>
  The framework's task queue is a parameter: \<open>add_task\<close> takes the queue and the task
  and returns the new queue or raises.  \<open>append_task\<close> is the queue of the framework,
  which appends and does not raise.
\<close>

type_synonym add_task = "sync_task list \<Rightarrow> sync_task \<Rightarrow> exn + sync_task list"

definition append_task :: add_task where
  "append_task queue task = Inr (queue @ [task])"

text \<open>
  The loop of lines 82-90.  On an exception the queue keeps the tasks added before it
  (\<open>Inl (e, queue)\<close>).
\<close>

fun add_tasks ::
  "add_task \<Rightarrow> sync_request \<Rightarrow> vector_db \<Rightarrow> notion_client \<Rightarrow> string list \<Rightarrow> sync_task list
     \<Rightarrow> exn \<times> sync_task list + sync_task list" where
  "add_tasks add request db client [] queue = Inr queue"
| "add_tasks add request db client (database_id # ids) queue =
     (case add queue
             \<lparr>task_database_id = database_id,
              task_force_update = force_update request,
              task_page_limit = page_limit request,
              task_db = db,
              task_client = client\<rparr> of
        Inl e \<Rightarrow> Inl (e, queue)
      | Inr queue' \<Rightarrow> add_tasks add request db client ids queue')"

definition sync_acknowledgment :: "sync_request \<Rightarrow> pydict" where
  "sync_acknowledgment request =
     [(''status'', PStr ''started''),
      (''message'', PStr ''notion synced''),
      (''force_update'', PBool (force_update request))]"

text \<open>
  The handler returns its response (or the HTTP error), the task queue as it leaves it,
  and its own events; the scheduled tasks run after the response is sent.
\<close>

definition sync_database ::
  "add_task \<Rightarrow> string list \<Rightarrow> sync_request \<Rightarrow> sync_task list \<Rightarrow> vector_db \<Rightarrow> notion_client
     \<Rightarrow> (http_exception + pydict) \<times> sync_task list \<times> event list" where
  "sync_database add database_ids request background_tasks db client =
     (case add_tasks add request db client database_ids background_tasks of
        Inr queue \<Rightarrow> (Inr (sync_acknowledgment request), queue, [])
      | Inl (e, queue) \<Rightarrow>
          (Inl (HTTPException 500 (str_exn e)), queue,
           [LogError [Lit ''Error starting database sync: '', Str e]]))"

section \<open>Background sync: fetching the pages (lines 113-135)\<close>

record fetch_state =
  all_pages :: "pyval list"
  has_more :: pyval
  next_cursor :: pyval
  pages_processed :: int
  fetch_trace :: "event list"

definition fetch_init :: fetch_state where
  "fetch_init =
     \<lparr>all_pages = [], has_more = PBool True, next_cursor = PNone, pages_processed = 0,
      fetch_trace = []\<rparr>"

text \<open>The loop condition of line 118.\<close>

definition fetch_continues :: "int option \<Rightarrow> fetch_state \<Rightarrow> bool" where
  "fetch_continues limit st =
     (truthy (has_more st) \<and>
      (case limit of None \<Rightarrow> True | Some l \<Rightarrow> pages_processed st < l))"

text \<open>
  Lines 119-124.  \<^verbatim>\<open>page_limit - pages_processed if page_limit else 100\<close> takes the
  difference when \<open>page_limit\<close> is truthy: neither \<open>None\<close> nor \<open>0\<close>.
\<close>

definition query_params :: "string \<Rightarrow> int option \<Rightarrow> fetch_state \<Rightarrow> pydict" where
  "query_params database_id limit st =
     (let params =
            [(''database_id'', PStr database_id),
             (''page_size'',
              PInt (min 100 (case limit of
                               None \<Rightarrow> 100
                             | Some l \<Rightarrow> if l \<noteq> 0 then l - pages_processed st else 100)))]
      in if truthy (next_cursor st)
         then dict_set params ''start_cursor'' (next_cursor st)
         else params)"

text \<open>
  Lines 119-132, one round of the loop.  An exception leaves the loop with the state as
  it is at the raise (\<open>Inl\<close>).
\<close>

definition fetch_step ::
  "notion_client \<Rightarrow> string \<Rightarrow> int option \<Rightarrow> fetch_state \<Rightarrow> exn \<times> fetch_state + fetch_state" where
  "fetch_step client database_id limit st =
     (let params = query_params database_id limit st;
          st1 = st\<lparr>fetch_trace := fetch_trace st @ [DatabasesQuery params]\<rparr>
      in case databases_query client params of
           Inl e \<Rightarrow> Inl (e, st1)
         | Inr response \<Rightarrow>
             (let pages = dict_get response ''results'' (PList [])
              in case py_iter pages of
                   Inl e \<Rightarrow> Inl (e, st1)
                 | Inr ps \<Rightarrow>
                     (let st2 = st1\<lparr>all_pages := all_pages st1 @ ps,
                                    has_more := dict_get response ''has_more'' (PBool False),
                                    next_cursor := dict_get response ''next_cursor'' PNone\<rparr>
                      in case py_len pages of
                           Inl e \<Rightarrow> Inl (e, st2)
                         | Inr n \<Rightarrow> Inr (st2\<lparr>pages_processed := pages_processed st2 + int n\<rparr>))))"

text \<open>The \<^verbatim>\<open>break\<close> test of line 134.\<close>

definition limit_reached :: "int option \<Rightarrow> fetch_state \<Rightarrow> bool" where
  "limit_reached limit st =
     (case limit of None \<Rightarrow> False | Some l \<Rightarrow> l \<noteq> 0 \<and> pages_processed st \<ge> l)"

text \<open>
  The \<^verbatim>\<open>while\<close> loop.  Nothing bounds the number of rounds (a source may go on
  answering with \<open>has_more\<close> set and no results), so the loop is a partial function:
  \<open>None\<close> is a run that never leaves it.
\<close>

partial_function (option) fetch_loop ::
  "notion_client \<Rightarrow> string \<Rightarrow> int option \<Rightarrow> fetch_state \<Rightarrow> (exn \<times> fetch_state + fetch_state) option" where
  "fetch_loop client database_id limit st =
     (if fetch_continues limit st
      then (case fetch_step client database_id limit st of
              Inl failure \<Rightarrow> Some (Inl failure)
            | Inr st' \<Rightarrow>
                if limit_reached limit st' then Some (Inr st')
                else fetch_loop client database_id limit st')
      else Some (Inr st))"

declare fetch_loop.simps [code]

section \<open>Background sync: storing the pages (lines 141-170)\<close>

definition sync_results_init :: sync_results where
  "sync_results_init = \<lparr>success = 0, skipped = 0, errors = 0, total_chunks = 0\<rparr>"

text \<open>The inner loop of lines 151-152 over the blocks of one page.\<close>

fun extract_blocks :: "notion_utils \<Rightarrow> pyval list \<Rightarrow> (exn + pyval list) \<times> event list" where
  "extract_blocks utils [] = (Inr [], [])"
| "extract_blocks utils (block # blocks) =
     (case extract_block_content utils block of
        Inl e \<Rightarrow> (Inl e, [ExtractBlockContent block])
      | Inr content \<Rightarrow>
          (case extract_blocks utils blocks of
             (Inl e, tr) \<Rightarrow> (Inl e, ExtractBlockContent block # tr)
           | (Inr contents, tr) \<Rightarrow> (Inr (content # contents), ExtractBlockContent block # tr)))"

text \<open>
  Lines 149-153, which stand before the \<^verbatim>\<open>try\<close> of line 154: the page's blocks are
  listed and extracted and the page gets its \<open>content\<close>.  The result is the page's
  \<open>id\<close> and the enriched page, or the exception that leaves the \<^verbatim>\<open>for\<close> loop.
\<close>

definition enrich_page ::
  "notion_client \<Rightarrow> notion_utils \<Rightarrow> pyval \<Rightarrow> (exn + pyval \<times> pyval) \<times> event list" where
  "enrich_page notion utils page =
     (case py_getitem page ''id'' of
        Inl e \<Rightarrow> (Inl e, [])
      | Inr page_id \<Rightarrow>
     (case blocks_children_list notion page_id of
        Inl e \<Rightarrow> (Inl e, [BlocksChildrenList page_id])
      | Inr blocks_response \<Rightarrow>
     (case py_iter (dict_get blocks_response ''results'' (PList [])) of
        Inl e \<Rightarrow> (Inl e, [BlocksChildrenList page_id])
      | Inr blocks \<Rightarrow>
     (case extract_blocks utils blocks of
        (Inl e, tr) \<Rightarrow> (Inl e, BlocksChildrenList page_id # tr)
      | (Inr pageContent, tr) \<Rightarrow>
     (case py_setitem page ''content'' (PList pageContent) of
        Inl e \<Rightarrow> (Inl e, BlocksChildrenList page_id # tr)
      | Inr page' \<Rightarrow> (Inr (page_id, page'), BlocksChildrenList page_id # tr))))))"

text \<open>
  Lines 162-166 on a store result: the counters as they are when the block ends, and the
  exception if one is raised on the way (a missing key, a \<open>chunks_stored\<close> that cannot
  be added).  Line 163 has run when line 164 raises.
\<close>

definition classify_result :: "pydict \<Rightarrow> sync_results \<Rightarrow> exn option \<times> sync_results" where
  "classify_result result rs =
     (case dict_item result ''status'' of
        Inl e \<Rightarrow> (Some e, rs)
      | Inr status \<Rightarrow>
          if status = PStr ''success''
          then (let rs1 = rs\<lparr>success := success rs + 1\<rparr>
                in case dict_item result ''chunks_stored'' of
                     Inl e \<Rightarrow> (Some e, rs1)
                   | Inr chunks \<Rightarrow>
                       (case int_add (total_chunks rs1) chunks of
                          Inl e \<Rightarrow> (Some e, rs1)
                        | Inr new_total \<Rightarrow> (None, rs1\<lparr>total_chunks := new_total\<rparr>)))
          else if status = PStr ''skipped''
          then (None, rs\<lparr>skipped := skipped rs + 1\<rparr>)
          else (None, rs))"

text \<open>
  Lines 154-170, the \<^verbatim>\<open>try\<close> around the store call and its classification, with its
  handler.  \<open>page_id\<close> is \<^verbatim>\<open>page["id"]\<close>, which \<open>enrich_page\<close> has read.
\<close>

definition store_page ::
  "vector_db \<Rightarrow> string \<Rightarrow> bool \<Rightarrow> pyval \<Rightarrow> pyval \<Rightarrow> sync_results \<Rightarrow> sync_results \<times> event list" where
  "store_page db database_id force page_id page rs =
     (let call = StoreNotionPage page_id page database_id force;
          handler = (\<lambda>e rs'. (rs'\<lparr>errors := errors rs' + 1\<rparr>,
                       [call, LogError [Lit ''Error syncing page '', Val page_id, Lit '': '', Str e]]))
      in case store_notion_page db page_id page database_id force of
           Inl e \<Rightarrow> handler e rs
         | Inr result \<Rightarrow>
             (case classify_result result rs of
                (Some e, rs') \<Rightarrow> handler e rs'
              | (None, rs') \<Rightarrow> (rs', [call])))"

text \<open>
  The \<^verbatim>\<open>for\<close> loop of line 148: the exception that ended it, if any, the counters
  and the events.
\<close>

fun sync_pages ::
  "notion_client \<Rightarrow> notion_utils \<Rightarrow> vector_db \<Rightarrow> string \<Rightarrow> bool \<Rightarrow> pyval list \<Rightarrow> sync_results
     \<Rightarrow> exn option \<times> sync_results \<times> event list" where
  "sync_pages notion utils db database_id force [] rs = (None, rs, [])"
| "sync_pages notion utils db database_id force (page # pages) rs =
     (case enrich_page notion utils page of
        (Inl e, tr) \<Rightarrow> (Some e, rs, tr)
      | (Inr (page_id, page'), tr) \<Rightarrow>
          (case store_page db database_id force page_id page' rs of
             (rs', tr') \<Rightarrow>
               (case sync_pages notion utils db database_id force pages rs' of
                  (failure, rs'', tr'') \<Rightarrow> (failure, rs'', tr @ tr' @ tr''))))"

section \<open>Background sync: the task (lines 101-175)\<close>

text \<open>
  What one run of the task leaves behind: the pages it fetched, the counters at its end,
  the exception caught by the outer handler of line 174 (if any), and its events.
\<close>

record sync_run =
  run_pages :: "pyval list"
  run_results :: sync_results
  run_failure :: "exn option"
  run_trace :: "event list"

definition background_failed :: "exn \<Rightarrow> event" where
  "background_failed e = LogError [Lit ''Error in background database sync: '', Str e]"

text \<open>
  \<open>notion\<close> and \<open>utils\<close> are the module's globals \<^verbatim>\<open>notion\<close> and
  \<^verbatim>\<open>notion_utils\<close> (lines 42-44), which the task reads beside its own arguments.
\<close>

definition sync_database_background ::
  "notion_client \<Rightarrow> notion_utils \<Rightarrow> string \<Rightarrow> bool \<Rightarrow> int option \<Rightarrow> vector_db \<Rightarrow> notion_client
     \<Rightarrow> sync_run option" where
  "sync_database_background notion utils database_id force limit db client =
     (let started = LogInfo [Lit ''Starting background sync for database '', Val (PStr database_id)]
      in case fetch_loop client database_id limit fetch_init of
           None \<Rightarrow> None
         | Some (Inl (e, st)) \<Rightarrow>
             Some \<lparr>run_pages = all_pages st, run_results = sync_results_init, run_failure = Some e,
                   run_trace = started # fetch_trace st @ [background_failed e]\<rparr>
         | Some (Inr st) \<Rightarrow>
             (let found = LogInfo [Lit ''Found '', Num (length (all_pages st)), Lit '' pages to sync'']
              in case sync_pages notion utils db database_id force (all_pages st) sync_results_init of
                   (Some e, rs, tr) \<Rightarrow>
                     Some \<lparr>run_pages = all_pages st, run_results = rs, run_failure = Some e,
                           run_trace = started # fetch_trace st @ found # tr @ [background_failed e]\<rparr>
                 | (None, rs, tr) \<Rightarrow>
                     Some \<lparr>run_pages = all_pages st, run_results = rs, run_failure = None,
                           run_trace = started # fetch_trace st @ found # tr @
                             [LogInfo [Lit ''Database sync completed: '', Counters rs]]\<rparr>))"

definition run_task :: "notion_client \<Rightarrow> notion_utils \<Rightarrow> sync_task \<Rightarrow> sync_run option" where
  "run_task notion utils task =
     sync_database_background notion utils (task_database_id task) (task_force_update task)
       (task_page_limit task) (task_db task) (task_client task)"

section \<open>Notions used by the statements, and sample collaborators\<close>

text \<open>\<^verbatim>\<open>source.get("page_url")\<close> of a source of the RAG result.\<close>

definition page_url :: "pyval \<Rightarrow> pyval" where
  "page_url source = (case source of PDict d \<Rightarrow> dict_get d ''page_url'' PNone | _ \<Rightarrow> PNone)"

text \<open>A dictionary without the key \<open>k\<close>.\<close>

definition dict_del :: "string \<Rightarrow> pydict \<Rightarrow> pydict" where
  "dict_del k d = filter (\<lambda>kv. fst kv \<noteq> k) d"

text \<open>
  A store result whose status \<open>success\<close> comes with a \<open>chunks_stored\<close> that can be
  added to the counter: an integer.
\<close>

definition well_formed_result :: "pydict \<Rightarrow> bool" where
  "well_formed_result result =
     (if map_of result ''status'' = Some (PStr ''success'')
      then (case map_of result ''chunks_stored'' of
              Some (PInt n) \<Rightarrow> True
            | Some (PBool b) \<Rightarrow> True
            | _ \<Rightarrow> False)
      else True)"

text \<open>The number of store calls among the events of a run.\<close>

fun store_calls :: "event list \<Rightarrow> nat" where
  "store_calls [] = 0"
| "store_calls (StoreNotionPage page_id page database_id force # evs) = Suc (store_calls evs)"
| "store_calls (ev # evs) = store_calls evs"

text \<open>The \<open>force_update\<close> flags of the store calls among the events of a run.\<close>

fun store_flags :: "event list \<Rightarrow> bool list" where
  "store_flags [] = []"
| "store_flags (StoreNotionPage page_id page database_id force # evs) = force # store_flags evs"
| "store_flags (ev # evs) = store_flags evs"

text \<open>
  A RAG service that answers every question with \<open>answer\<close>, and one that raises \<open>e\<close>.
\<close>

definition rag_returning :: "pydict \<Rightarrow> rag_service" where
  "rag_returning answer = \<lparr>model_name = PStr ''gemini'', answer_question = (\<lambda>q. Inr answer)\<rparr>"

definition rag_raising :: "exn \<Rightarrow> rag_service" where
  "rag_raising e = \<lparr>model_name = PStr ''gemini'', answer_question = (\<lambda>q. Inl e)\<rparr>"

text \<open>A vector store on which every operation succeeds; each page is stored in two chunks.\<close>

definition sample_db :: vector_db where
  "sample_db =
     \<lparr>ensure_vector_index = Inr (),
      get_stats = Inr [(''total_chunks'', PInt 42), (''unique_pages'', PInt 7)],
      generate_embedding = (\<lambda>text. Inr [0.25, 0.5, 0.75]),
      embedding_model_name = PStr ''sentence-embedder'',
      store_notion_page = (\<lambda>page_id page database_id force.
         Inr [(''status'', PStr ''success''), (''chunks_stored'', PInt 2)])\<rparr>"

text \<open>
  A document source that serves the list \<open>pages\<close> by the cursor protocol: a query gets
  the next \<open>page_size\<close> pages after the position its \<open>start_cursor\<close> stands for (the
  beginning without one), \<open>has_more\<close> tells whether pages remain after them and
  \<open>next_cursor\<close> stands for the position reached.  The cursor for position \<open>n\<close> is
  a string of \<open>n + 1\<close> characters.
\<close>

definition cursor_at :: "nat \<Rightarrow> pyval" where
  "cursor_at n = PStr (replicate (Suc n) CHR ''c'')"

definition paged_query :: "pyval list \<Rightarrow> pydict \<Rightarrow> exn + pydict" where
  "paged_query pages params =
     (let start = (case map_of params ''start_cursor'' of Some (PStr c) \<Rightarrow> length c - 1 | _ \<Rightarrow> 0);
          size = (case map_of params ''page_size'' of Some (PInt n) \<Rightarrow> nat n | _ \<Rightarrow> 100);
          rest = drop start pages
      in Inr [(''results'', PList (take size rest)),
              (''has_more'', PBool (size < length rest)),
              (''next_cursor'', if size < length rest then cursor_at (start + size) else PNone)])"

text \<open>A Notion client over that source; every page has one block, or none.\<close>

definition paged_client :: "pyval list \<Rightarrow> notion_client" where
  "paged_client pages =
     \<lparr>databases_query = paged_query pages,
      blocks_children_list = (\<lambda>block_id. Inr [(''results'', PList [PStr ''block''])])\<rparr>"

definition sample_utils :: notion_utils where
  "sample_utils = \<lparr>extract_block_content = (\<lambda>block. Inr block)\<rparr>"

text \<open>\<open>n\<close> pages with the identifiers \<open>0\<close>, ..., \<open>n - 1\<close>.\<close>

definition sample_pages :: "nat \<Rightarrow> pyval list" where
  "sample_pages n = map (\<lambda>i. PDict [(''id'', PInt (int i))]) [0..<n]"

text \<open>
  A vector store that answers by the page identifier: page 0 is stored in three chunks,
  page 1 is skipped, the store raises on page 2, and any other page gets the status
  \<open>error\<close>.
\<close>

definition mixed_db :: vector_db where
  "mixed_db =
     sample_db\<lparr>store_notion_page := (\<lambda>page_id page database_id force.
        if page_id = PInt 0 then Inr [(''status'', PStr ''success''), (''chunks_stored'', PInt 3)]
        else if page_id = PInt 1 then Inr [(''status'', PStr ''skipped''), (''reason'', PStr ''unchanged'')]
        else if page_id = PInt 2 then Inl (Raised ''write failed'')
        else Inr [(''status'', PStr ''error'')])\<rparr>"

text \<open>A vector store whose success result has no \<open>chunks_stored\<close>.\<close>

definition terse_db :: vector_db where
  "terse_db =
     sample_db\<lparr>store_notion_page := (\<lambda>page_id page database_id force.
        Inr [(''status'', PStr ''success'')])\<rparr>"

text \<open>A Notion client that cannot list the blocks of page 0.\<close>

definition unlisted_client :: "pyval list \<Rightarrow> notion_client" where
  "unlisted_client pages =
     (paged_client pages)\<lparr>blocks_children_list := (\<lambda>block_id.
        if block_id = PInt 0 then Inl (Raised ''object not found'')
        else Inr [(''results'', PList [PStr ''block''])])\<rparr>"








section \<open>The chat endpoint\<close>

lemma source_urls_Inr:
  "source_urls srcs = Inr urls \<Longrightarrow> urls = filter truthy (map page_url srcs)"
proof (induction srcs arbitrary: urls)
  case Nil
  then show ?case by simp
next
  case (Cons s srcs)
  then show ?case
    by (cases s) (auto simp: page_url_def split: sum.splits if_splits)
qed

lemma source_urls_hd_dict:
  "source_urls (s # srcs) = Inr urls \<Longrightarrow> \<exists>d. s = PDict d"
  by (cases s) (auto split: sum.splits)

lemma iterated_sources:
  assumes "truthy v" and "py_iter v = Inr xs" and "source_urls xs = Inr urls"
  shows "v = PList xs"
proof (cases v)
  case (PStr s)
  with assms(1) obtain c cs where "s = c # cs" by (cases s) auto
  with PStr assms(2) have "xs = PStr [c] # map (\<lambda>c. PStr [c]) cs" by auto
  with assms(3) show ?thesis using source_urls_hd_dict by blast
next
  case (PDict d)
  with assms(1) obtain kv kvs where "d = kv # kvs" by (cases d) auto
  with PDict assms(2) have "xs = PStr (fst kv) # map (\<lambda>kv. PStr (fst kv)) kvs" by auto
  with assms(3) show ?thesis using source_urls_hd_dict by blast
qed (use assms in auto)

lemma chat_response_omitted:
  assumes "chat_response question answer = Inr response"
  shows "(map_of response ''source_urls'' = None) = (\<not> truthy (dict_get answer ''sources'' PNone))"
  using assms
  by (auto simp: chat_response_def Let_def dict_item_def dict_get_def split: sum.splits if_splits option.splits)

lemma chat_response_present:
  assumes ok: "chat_response question answer = Inr response"
      and some: "map_of response ''source_urls'' = Some v"
  shows "\<exists>srcs. map_of answer ''sources'' = Some (PList srcs) \<and> v = PList (filter truthy (map page_url srcs))"
proof -
  from ok obtain w xs urls where w: "map_of answer ''sources'' = Some w" and t: "truthy w"
    and it: "py_iter w = Inr xs" and su: "source_urls xs = Inr urls"
    and v: "map_of response ''source_urls'' = Some (PList urls)"
    using some
    by (auto simp: chat_response_def Let_def dict_item_def dict_get_def
        split: sum.splits if_splits option.splits)
  from t it su have "w = PList xs" by (rule iterated_sources)
  moreover from su have "urls = filter truthy (map page_url xs)" by (rule source_urls_Inr)
  ultimately show ?thesis using w v some by simp
qed

lemma chat_Inr:
  "chat_with_knowledge_base question rag = (Inr response, tr) \<Longrightarrow> answer_question rag question = Inr answer
   \<Longrightarrow> chat_response question answer = Inr response"
  by (auto simp: chat_with_knowledge_base_def split: sum.splits)

lemma chat_response_fields:
  assumes "chat_response question answer = Inr response"
  shows "map_of response ''question'' = Some (PStr question)"
    and "map_of answer ''sources'' = None \<Longrightarrow> map_of response ''sources_count'' = Some (PInt 0)"
    and "map_of answer ''sources'' = Some (PList srcs) \<Longrightarrow> map_of response ''sources_count'' = Some (PInt (int (length srcs)))"
    and "map_of answer ''model_used'' = None \<Longrightarrow> map_of response ''model'' = Some PNone"
  using assms
  by (auto simp: chat_response_def Let_def dict_item_def dict_get_def split: sum.splits if_splits option.splits)

lemma map_of_dict_del: "map_of (dict_del k d) k' = (if k' = k then None else map_of d k')"
  by (induction d) (auto simp: dict_del_def)

lemma chat_response_model_irrelevant:
  "isl (chat_response question (dict_del ''model_used'' answer)) = isl (chat_response question answer)"
  by (auto simp: chat_response_def Let_def dict_item_def dict_get_def map_of_dict_del
      split: sum.splits if_splits option.splits)

text \<open>
  C3, as the code has it: on a successful chat request the \<open>source_urls\<close> key is
  omitted exactly when the \<open>sources\<close> of the RAG result are absent or empty; when it
  is present, the sources are a non-empty list and \<open>source_urls\<close> is the list of
  their non-empty \<open>page_url\<close> values, in order (the empty list when no source has
  one).
\<close>

theorem chat_source_urls:
  assumes "answer_question rag question = Inr answer"
      and "chat_with_knowledge_base question rag = (Inr response, tr)"
  shows "(map_of response ''source_urls'' = None) = (\<not> truthy (dict_get answer ''sources'' PNone)) \<and>
         (\<forall>v. map_of response ''source_urls'' = Some v \<longrightarrow>
            (\<exists>srcs. map_of answer ''sources'' = Some (PList srcs) \<and>
                    v = PList (filter truthy (map page_url srcs))))"
  using chat_Inr [OF assms(2) assms(1)] chat_response_omitted chat_response_present by blast

theorem chat_source_urls_witness:
  "answer_question (rag_returning
       [(''answer'', PStr ''42''), (''context_used'', PBool True),
        (''sources'', PList [PDict [(''page_url'', PStr ''https://notion.so/a'')], PDict [(''page_url'', PStr [])], PDict []])]) ''q''
     = Inr [(''answer'', PStr ''42''), (''context_used'', PBool True),
        (''sources'', PList [PDict [(''page_url'', PStr ''https://notion.so/a'')], PDict [(''page_url'', PStr [])], PDict []])]
   \<and> chat_with_knowledge_base ''q'' (rag_returning
       [(''answer'', PStr ''42''), (''context_used'', PBool True),
        (''sources'', PList [PDict [(''page_url'', PStr ''https://notion.so/a'')], PDict [(''page_url'', PStr [])], PDict []])])
     = (Inr [(''question'', PStr ''q''), (''answer'', PStr ''42''), (''context_used'', PBool True),
             (''sources_count'', PInt 3), (''model'', PNone),
             (''source_urls'', PList [PStr ''https://notion.so/a''])], [AnswerQuestion ''q''])
   \<and> map_of [(''question'', PStr ''q''), (''answer'', PStr ''42''), (''context_used'', PBool True),
             (''sources_count'', PInt 3), (''model'', PNone),
             (''source_urls'', PList [PStr ''https://notion.so/a''])] ''source_urls''
       = Some (PList (filter truthy (map page_url [PDict [(''page_url'', PStr ''https://notion.so/a'')], PDict [(''page_url'', PStr [])], PDict []])))"
proof -
  let ?answer = "[(''answer'', PStr ''42''), (''context_used'', PBool True),
        (''sources'', PList [PDict [(''page_url'', PStr ''https://notion.so/a'')], PDict [(''page_url'', PStr [])], PDict []])]"
  let ?response = "[(''question'', PStr ''q''), (''answer'', PStr ''42''), (''context_used'', PBool True),
             (''sources_count'', PInt 3), (''model'', PNone),
             (''source_urls'', PList [PStr ''https://notion.so/a''])]"
  have a: "answer_question (rag_returning ?answer) ''q'' = Inr ?answer"
    by (simp add: rag_returning_def)
  have c: "chat_with_knowledge_base ''q'' (rag_returning ?answer) = (Inr ?response, [AnswerQuestion ''q''])"
    by (simp add: chat_with_knowledge_base_def rag_returning_def chat_response_def dict_item_def dict_get_def)
  show ?thesis
    using a c chat_source_urls [OF a c] by (simp add: page_url_def dict_get_def)
qed

text \<open>
  A RAG result whose only source has an empty \<open>page_url\<close>: no source has a non-empty
  one, and the response carries \<open>source_urls\<close>, the empty list.
\<close>

theorem chat_source_urls_counterexample:
  "filter truthy (map page_url [PDict [(''page_url'', PStr [])]]) = [] \<and>
   fst (chat_with_knowledge_base ''q'' (rag_returning
       [(''answer'', PStr ''42''), (''context_used'', PBool False),
        (''sources'', PList [PDict [(''page_url'', PStr [])]])]))
     = Inr [(''question'', PStr ''q''), (''answer'', PStr ''42''), (''context_used'', PBool False),
            (''sources_count'', PInt 1), (''model'', PNone), (''source_urls'', PList [])]"
  by (simp add: chat_with_knowledge_base_def rag_returning_def chat_response_def dict_item_def dict_get_def page_url_def)

text \<open>
  C10: a successful chat response echoes the question, its \<open>sources_count\<close> is the
  length of the sources list of the RAG result (0 when the key is absent), and its
  \<open>model\<close> is null when the RAG result has no \<open>model_used\<close> key; the request
  succeeds just as well on the RAG result without that key.
\<close>

theorem chat_echo_and_counts:
  assumes "answer_question rag question = Inr answer"
      and "chat_with_knowledge_base question rag = (Inr response, tr)"
  shows "map_of response ''question'' = Some (PStr question) \<and>
         (map_of answer ''sources'' = None \<longrightarrow> map_of response ''sources_count'' = Some (PInt 0)) \<and>
         (\<forall>srcs. map_of answer ''sources'' = Some (PList srcs) \<longrightarrow>
            map_of response ''sources_count'' = Some (PInt (int (length srcs)))) \<and>
         (map_of answer ''model_used'' = None \<longrightarrow> map_of response ''model'' = Some PNone) \<and>
         \<not> isl (chat_response question (dict_del ''model_used'' answer))"
proof -
  have r: "chat_response question answer = Inr response"
    using chat_Inr [OF assms(2) assms(1)] .
  then have "\<not> isl (chat_response question (dict_del ''model_used'' answer))"
    by (simp add: chat_response_model_irrelevant)
  with chat_response_fields [OF r] show ?thesis by blast
qed

theorem chat_echo_and_counts_witness:
  "map_of [(''question'', PStr ''what?''), (''answer'', PStr ''42''), (''context_used'', PBool False),
           (''sources_count'', PInt 0), (''model'', PNone)] ''model'' = Some PNone \<and>
   chat_with_knowledge_base ''what?'' (rag_returning [(''answer'', PStr ''42''), (''context_used'', PBool False)])
     = (Inr [(''question'', PStr ''what?''), (''answer'', PStr ''42''), (''context_used'', PBool False),
             (''sources_count'', PInt 0), (''model'', PNone)], [AnswerQuestion ''what?''])"
proof -
  let ?answer = "[(''answer'', PStr ''42''), (''context_used'', PBool False)]"
  let ?response = "[(''question'', PStr ''what?''), (''answer'', PStr ''42''), (''context_used'', PBool False),
           (''sources_count'', PInt 0), (''model'', PNone)]"
  have a: "answer_question (rag_returning ?answer) ''what?'' = Inr ?answer"
    by (simp add: rag_returning_def)
  have c: "chat_with_knowledge_base ''what?'' (rag_returning ?answer) = (Inr ?response, [AnswerQuestion ''what?''])"
    by (simp add: chat_with_knowledge_base_def rag_returning_def chat_response_def dict_item_def dict_get_def)
  have m: "map_of ?answer ''model_used'' = None" by simp
  show ?thesis
    using c m chat_echo_and_counts [OF a c] by simp
qed

section \<open>Startup, statistics, health and the sync trigger\<close>

text \<open>
  C7: at startup the index-ensure operation of the vector store is called exactly once,
  as the first thing and before the hook yields to request serving; whether it returns
  or raises, the hook reaches its yield, and a failure is only logged, with no second
  call.
\<close>

theorem lifespan_ensures_index_once:
  "fst (lifespan db) = Inr () \<and>
   hd (snd (lifespan db)) = EnsureVectorIndex \<and>
   length (filter (\<lambda>ev. ev = EnsureVectorIndex) (snd (lifespan db))) = 1 \<and>
   (\<forall>e. ensure_vector_index db = Inl e \<longrightarrow>
      snd (lifespan db) =
        [EnsureVectorIndex, LogError [Lit ''Error initializing vector database: '', Str e]])"
  by (cases "ensure_vector_index db") (simp_all add: lifespan_def)

theorem lifespan_ensures_index_once_witness:
  "ensure_vector_index (sample_db\<lparr>ensure_vector_index := Inl (Raised ''no connection'')\<rparr>)
     = Inl (Raised ''no connection'') \<and>
   lifespan (sample_db\<lparr>ensure_vector_index := Inl (Raised ''no connection'')\<rparr>)
     = (Inr (), [EnsureVectorIndex,
                 LogError [Lit ''Error initializing vector database: '', Str (Raised ''no connection'')]])"
  using lifespan_ensures_index_once [of "sample_db\<lparr>ensure_vector_index := Inl (Raised ''no connection'')\<rparr>"]
  by (simp add: lifespan_def)

text \<open>
  C5: the health check fails with status 503 when the statistics call raises and when
  the embedding probe raises; when neither raises it returns the healthy payload, whose
  \<open>embedding_dimension\<close> is the length of the probe's embedding.
\<close>

theorem health_check_503_or_healthy:
  "(\<forall>e. get_stats db = Inl e \<longrightarrow>
      fst (vector_health_check db rag) =
        Inl (HTTPException 503 (''Service unavailable: '' @ str_exn e))) \<and>
   (\<forall>stats e. get_stats db = Inr stats \<and> generate_embedding db ''test'' = Inl e \<longrightarrow>
      fst (vector_health_check db rag) =
        Inl (HTTPException 503 (''Service unavailable: '' @ str_exn e))) \<and>
   (\<forall>stats embedding. get_stats db = Inr stats \<and> generate_embedding db ''test'' = Inr embedding \<longrightarrow>
      (\<exists>payload. fst (vector_health_check db rag) = Inr payload \<and>
         map_of payload ''status'' = Some (PStr ''healthy'') \<and>
         map_of payload ''embedding_dimension'' = Some (PInt (int (length embedding)))))"
  by (auto simp: vector_health_check_def health_failure_def)

theorem health_check_503_or_healthy_witness:
  "fst (vector_health_check (sample_db\<lparr>get_stats := Inl (Raised ''down'')\<rparr>) (rag_returning []))
     = Inl (HTTPException 503 ''Service unavailable: down'') \<and>
   fst (vector_health_check (sample_db\<lparr>generate_embedding := (\<lambda>text. Inl (Raised ''no model''))\<rparr>) (rag_returning []))
     = Inl (HTTPException 503 ''Service unavailable: no model'') \<and>
   map_of (projr (fst (vector_health_check sample_db (rag_returning [])))) ''embedding_dimension''
     = Some (PInt 3)"
  using health_check_503_or_healthy [of "sample_db\<lparr>get_stats := Inl (Raised ''down'')\<rparr>" "rag_returning []"]
    health_check_503_or_healthy [of "sample_db\<lparr>generate_embedding := (\<lambda>text. Inl (Raised ''no model''))\<rparr>" "rag_returning []"]
    health_check_503_or_healthy [of sample_db "rag_returning []"]
  by (auto simp: sample_db_def)

lemma add_tasks_append:
  "add_tasks add request db client pre queue = Inr queue1 \<Longrightarrow>
   add_tasks add request db client (pre @ ids) queue = add_tasks add request db client ids queue1"
  by (induction pre arbitrary: queue) (auto split: sum.splits)

lemma add_tasks_append_task:
  "add_tasks append_task request db client ids queue =
     Inr (queue @ map (\<lambda>database_id.
            \<lparr>task_database_id = database_id, task_force_update = force_update request,
             task_page_limit = page_limit request, task_db = db, task_client = client\<rparr>) ids)"
  by (induction ids arbitrary: queue) (simp_all add: append_task_def)

text \<open>
  C6: an exception raised by the work a handler delegates is caught and becomes an HTTP
  error with status 500 whose detail is the exception's message.  For the statistics
  endpoint that work is the store's statistics call, for the chat endpoint the RAG
  service's answer (and the reshaping of its result), for the sync trigger the
  scheduling of a task: when it raises on some database identifier after the earlier
  ones were scheduled, the later ones are not attempted.  The delegated call appears
  once among the events: it is not retried.
\<close>

theorem handler_failure_is_500:
  "(\<forall>e. get_stats db = Inl e \<longrightarrow>
      get_vector_db_stats db =
        (Inl (HTTPException 500 (str_exn e)),
         [GetStats, LogError [Lit ''Error getting stats: '', Str e]])) \<and>
   (\<forall>e. answer_question rag question = Inl e \<longrightarrow>
      chat_with_knowledge_base question rag =
        (Inl (HTTPException 500 (str_exn e)),
         [AnswerQuestion question, LogError [Lit ''Error in chat: '', Str e]])) \<and>
   (\<forall>e answer. answer_question rag question = Inr answer \<and> chat_response question answer = Inl e \<longrightarrow>
      chat_with_knowledge_base question rag =
        (Inl (HTTPException 500 (str_exn e)),
         [AnswerQuestion question, LogError [Lit ''Error in chat: '', Str e]])) \<and>
   (\<forall>e pre database_id post queue1.
      add_tasks add request db client pre queue = Inr queue1 \<and>
      add queue1 \<lparr>task_database_id = database_id, task_force_update = force_update request,
                  task_page_limit = page_limit request, task_db = db, task_client = client\<rparr> = Inl e \<longrightarrow>
      sync_database add (pre @ database_id # post) request queue db client =
        (Inl (HTTPException 500 (str_exn e)), queue1,
         [LogError [Lit ''Error starting database sync: '', Str e]]))"
  by (auto simp: get_vector_db_stats_def chat_with_knowledge_base_def sync_database_def
      add_tasks_append)

theorem handler_failure_is_500_witness:
  "get_vector_db_stats (sample_db\<lparr>get_stats := Inl (Raised ''down'')\<rparr>)
     = (Inl (HTTPException 500 ''down''),
        [GetStats, LogError [Lit ''Error getting stats: '', Str (Raised ''down'')]]) \<and>
   chat_with_knowledge_base ''q'' (rag_raising (Raised ''quota''))
     = (Inl (HTTPException 500 ''quota''),
        [AnswerQuestion ''q'', LogError [Lit ''Error in chat: '', Str (Raised ''quota'')]]) \<and>
   fst (chat_with_knowledge_base ''q'' (rag_returning [(''context_used'', PBool True)]))
     = Inl (HTTPException 500 [CHR 0x27, CHR ''a'', CHR ''n'', CHR ''s'', CHR ''w'', CHR ''e'', CHR ''r'', CHR 0x27]) \<and>
   sync_database (\<lambda>queue task. if task_database_id task = ''b'' then Inl (Raised ''full'') else append_task queue task)
       [''a'', ''b'', ''c''] \<lparr>force_update = True, page_limit = Some 100\<rparr> [] sample_db (paged_client [])
     = (Inl (HTTPException 500 ''full''),
        [\<lparr>task_database_id = ''a'', task_force_update = True, task_page_limit = Some 100,
          task_db = sample_db, task_client = paged_client []\<rparr>],
        [LogError [Lit ''Error starting database sync: '', Str (Raised ''full'')]])"
  using handler_failure_is_500 [where db = "sample_db\<lparr>get_stats := Inl (Raised ''down'')\<rparr>"
      and rag = "rag_raising (Raised ''quota'')" and question = "''q''"]
    handler_failure_is_500 [where rag = "rag_returning [(''context_used'', PBool True)]"
      and question = "''q''"]
    handler_failure_is_500 [where db = sample_db and client = "paged_client []" and queue = "[]"
      and request = "\<lparr>force_update = True, page_limit = Some 100\<rparr>"
      and add = "\<lambda>queue task. if task_database_id task = ''b'' then Inl (Raised ''full'') else append_task queue task"]
  by (simp add: get_vector_db_stats_def chat_with_knowledge_base_def rag_raising_def rag_returning_def
      chat_response_def dict_item_def sync_database_def append_task_def)

text \<open>
  C9: with an empty list of database identifiers (which is what an unset or empty
  \<open>NOTION_DATABASE_IDS\<close> gives) the sync trigger schedules no task, whatever the task
  queue is, and returns the acknowledgment that it returns when databases are configured.
\<close>

theorem sync_without_databases:
  "notion_database_ids None = [] \<and>
   notion_database_ids (Some []) = [] \<and>
   sync_database add [] request queue db client =
     (Inr [(''status'', PStr ''started''), (''message'', PStr ''notion synced''),
           (''force_update'', PBool (force_update request))], queue, []) \<and>
   fst (sync_database append_task database_ids request queue db client) =
     fst (sync_database add [] request queue db client)"
  by (simp add: notion_database_ids_def sync_database_def sync_acknowledgment_def add_tasks_append_task)

section \<open>Storing the pages: counters and store calls\<close>

lemma store_calls_append: "store_calls (xs @ ys) = store_calls xs + store_calls ys"
  by (induction xs rule: store_calls.induct) simp_all

lemma store_flags_append: "store_flags (xs @ ys) = store_flags xs @ store_flags ys"
  by (induction xs rule: store_flags.induct) simp_all

lemma extract_blocks_no_store:
  "extract_blocks utils blocks = (r, tr) \<Longrightarrow> store_calls tr = 0 \<and> store_flags tr = []"
  by (induction blocks arbitrary: r tr) (auto split: sum.splits prod.splits)

lemma enrich_page_no_store:
  "enrich_page notion utils page = (r, tr) \<Longrightarrow> store_calls tr = 0 \<and> store_flags tr = []"
  by (auto simp: enrich_page_def split: sum.splits prod.splits dest: extract_blocks_no_store)

lemma store_page_one_call:
  "store_calls (snd (store_page db database_id force page_id page rs)) = 1 \<and>
   store_flags (snd (store_page db database_id force page_id page rs)) = [force]"
  by (auto simp: store_page_def Let_def split: sum.splits prod.splits option.splits)

lemma classify_well_formed:
  assumes "well_formed_result result"
  shows "classify_result result rs = (Some e, rs') \<Longrightarrow> rs' = rs"
    and "classify_result result rs = (None, rs') \<Longrightarrow>
           errors rs' = errors rs \<and> success rs \<le> success rs' \<and> skipped rs \<le> skipped rs' \<and>
           success rs' + skipped rs' \<le> success rs + skipped rs + 1"
  using assms
  by (auto simp: classify_result_def well_formed_result_def dict_item_def Let_def
      split: option.splits if_splits pyval.splits sum.splits)

lemma classify_other_status:
  assumes "map_of result ''status'' = Some status" "status \<noteq> PStr ''success''" "status \<noteq> PStr ''skipped''"
  shows "classify_result result rs = (None, rs)"
  using assms by (simp add: classify_result_def dict_item_def)

lemma classify_total_chunks:
  assumes "total_chunks (snd (classify_result result rs)) \<noteq> total_chunks rs"
  shows "map_of result ''status'' = Some (PStr ''success'')"
  using assms
  by (auto simp: classify_result_def dict_item_def Let_def split: option.splits if_splits sum.splits)

lemma store_page_counters:
  assumes "\<forall>result. store_notion_page db page_id page database_id force = Inr result \<longrightarrow> well_formed_result result"
  shows "let rs' = fst (store_page db database_id force page_id page rs)
         in success rs \<le> success rs' \<and> skipped rs \<le> skipped rs' \<and> errors rs \<le> errors rs' \<and>
            success rs' + skipped rs' + errors rs' \<le> success rs + skipped rs + errors rs + 1"
proof (cases "store_notion_page db page_id page database_id force")
  case (Inl e)
  then show ?thesis by (simp add: store_page_def)
next
  case (Inr result)
  with assms have wf: "well_formed_result result" by simp
  obtain x rs1 where c: "classify_result result rs = (x, rs1)"
    by (cases "classify_result result rs")
  show ?thesis
  proof (cases x)
    case None
    with classify_well_formed(2) [OF wf, of rs rs1] c Inr show ?thesis
      by (simp add: store_page_def)
  next
    case (Some e)
    with classify_well_formed(1) [OF wf, of rs e rs1] c Inr show ?thesis
      by (simp add: store_page_def)
  qed
qed

lemma store_page_other_status:
  assumes "store_notion_page db page_id page database_id force = Inr result"
      and "map_of result ''status'' = Some status"
      and "status \<noteq> PStr ''success''" and "status \<noteq> PStr ''skipped''"
  shows "fst (store_page db database_id force page_id page rs) = rs"
  using assms by (simp add: store_page_def classify_other_status)

lemma store_page_total_chunks:
  assumes "total_chunks (fst (store_page db database_id force page_id page rs)) \<noteq> total_chunks rs"
  shows "\<exists>result. store_notion_page db page_id page database_id force = Inr result \<and>
           map_of result ''status'' = Some (PStr ''success'')"
proof (cases "store_notion_page db page_id page database_id force")
  case (Inl e)
  with assms show ?thesis by (simp add: store_page_def)
next
  case (Inr result)
  obtain x rs1 where c: "classify_result result rs = (x, rs1)"
    by (cases "classify_result result rs")
  have "fst (store_page db database_id force page_id page rs) = rs1 \<or>
        fst (store_page db database_id force page_id page rs) = rs1\<lparr>errors := errors rs1 + 1\<rparr>"
    using Inr c by (cases x) (simp_all add: store_page_def)
  with assms c have "total_chunks (snd (classify_result result rs)) \<noteq> total_chunks rs"
    by auto
  then show ?thesis using Inr classify_total_chunks by blast
qed

lemma sync_pages_bound:
  assumes "\<forall>page_id page result.
             store_notion_page db page_id page database_id force = Inr result \<longrightarrow> well_formed_result result"
      and "sync_pages notion utils db database_id force pages rs = (failure, rs', tr)"
  shows "success rs \<le> success rs' \<and> skipped rs \<le> skipped rs' \<and> errors rs \<le> errors rs' \<and>
         success rs' + skipped rs' + errors rs' \<le> success rs + skipped rs + errors rs + int (store_calls tr) \<and>
         store_calls tr \<le> length pages"
  using assms(2)
proof (induction pages arbitrary: rs failure rs' tr)
  case Nil
  then show ?case by simp
next
  case (Cons page pages)
  show ?case
  proof (cases "enrich_page notion utils page")
    case (Pair r tr0)
    note e = enrich_page_no_store [OF Pair]
    show ?thesis
    proof (cases r)
      case (Inl x)
      with Cons.prems Pair e show ?thesis by auto
    next
      case (Inr p)
      obtain page_id page' where p: "p = (page_id, page')" by (cases p)
      obtain rs1 tr1 where s: "store_page db database_id force page_id page' rs = (rs1, tr1)"
        by (cases "store_page db database_id force page_id page' rs")
      obtain f2 rs2 tr2 where r2: "sync_pages notion utils db database_id force pages rs1 = (f2, rs2, tr2)"
        by (cases "sync_pages notion utils db database_id force pages rs1") auto
      from Cons.prems Pair Inr p s r2 have eq: "rs' = rs2" "tr = tr0 @ tr1 @ tr2" by auto
      have one: "store_calls tr1 = 1"
        using store_page_one_call [of db database_id force page_id page' rs] s by simp
      have step: "success rs \<le> success rs1 \<and> skipped rs \<le> skipped rs1 \<and> errors rs \<le> errors rs1 \<and>
            success rs1 + skipped rs1 + errors rs1 \<le> success rs + skipped rs + errors rs + 1"
        using store_page_counters [of db page_id page' database_id force rs] assms(1) s
        by (simp add: Let_def)
      from Cons.IH [OF r2] step one e show ?thesis
        by (simp add: eq store_calls_append)
    qed
  qed
qed

lemma sync_pages_flags:
  "sync_pages notion utils db database_id force pages rs = (failure, rs', tr) \<Longrightarrow>
   store_flags tr = replicate (store_calls tr) force"
proof (induction pages arbitrary: rs failure rs' tr)
  case Nil
  then show ?case by simp
next
  case (Cons page pages)
  show ?case
  proof (cases "enrich_page notion utils page")
    case (Pair r tr0)
    note e = enrich_page_no_store [OF Pair]
    show ?thesis
    proof (cases r)
      case (Inl x)
      with Cons.prems Pair e show ?thesis by auto
    next
      case (Inr p)
      obtain page_id page' where p: "p = (page_id, page')" by (cases p)
      obtain rs1 tr1 where s: "store_page db database_id force page_id page' rs = (rs1, tr1)"
        by (cases "store_page db database_id force page_id page' rs")
      obtain f2 rs2 tr2 where r2: "sync_pages notion utils db database_id force pages rs1 = (f2, rs2, tr2)"
        by (cases "sync_pages notion utils db database_id force pages rs1") auto
      from Cons.prems Pair Inr p s r2 have eq: "tr = tr0 @ tr1 @ tr2" by auto
      have one: "store_calls tr1 = 1 \<and> store_flags tr1 = [force]"
        using store_page_one_call [of db database_id force page_id page' rs] s by simp
      from Cons.IH [OF r2] one e show ?thesis
        by (simp add: eq store_calls_append store_flags_append)
    qed
  qed
qed

lemma store_failure_counts_error_only:
  assumes "store_notion_page db page_id page database_id force = Inl e"
  shows "store_page db database_id force page_id page rs =
           (rs\<lparr>errors := errors rs + 1\<rparr>,
            [StoreNotionPage page_id page database_id force,
             LogError [Lit ''Error syncing page '', Val page_id, Lit '': '', Str e]])"
  using assms by (simp add: store_page_def)

text \<open>
  C8, as the code has it.  Let every result of the store with the status \<open>success\<close>
  carry an integer \<open>chunks_stored\<close>.  Then each page that reaches the store call leaves
  every counter where it was or one of \<open>success\<close>, \<open>skipped\<close>, \<open>errors\<close> higher by
  one; a result whose status is neither \<open>success\<close> nor \<open>skipped\<close> changes no counter;
  \<open>total_chunks\<close> changes only on a result with status \<open>success\<close>; and at the end of
  the loop over any batch \<open>success + skipped + errors\<close> is at most the number of store
  calls, which is at most the number of pages.
\<close>

theorem sync_counters_bounded:
  assumes "\<forall>page_id page result.
             store_notion_page db page_id page database_id force = Inr result \<longrightarrow> well_formed_result result"
  shows "(\<forall>page_id page rs.
            success rs \<le> success (fst (store_page db database_id force page_id page rs)) \<and>
            skipped rs \<le> skipped (fst (store_page db database_id force page_id page rs)) \<and>
            errors rs \<le> errors (fst (store_page db database_id force page_id page rs)) \<and>
            success (fst (store_page db database_id force page_id page rs))
              + skipped (fst (store_page db database_id force page_id page rs))
              + errors (fst (store_page db database_id force page_id page rs))
              \<le> success rs + skipped rs + errors rs + 1) \<and>
         (\<forall>page_id page rs result status.
            store_notion_page db page_id page database_id force = Inr result \<and>
            map_of result ''status'' = Some status \<and>
            status \<noteq> PStr ''success'' \<and> status \<noteq> PStr ''skipped'' \<longrightarrow>
            fst (store_page db database_id force page_id page rs) = rs) \<and>
         (\<forall>page_id page rs.
            total_chunks (fst (store_page db database_id force page_id page rs)) \<noteq> total_chunks rs \<longrightarrow>
            (\<exists>result. store_notion_page db page_id page database_id force = Inr result \<and>
                      map_of result ''status'' = Some (PStr ''success''))) \<and>
         (\<forall>pages failure rs tr.
            sync_pages notion utils db database_id force pages sync_results_init = (failure, rs, tr) \<longrightarrow>
            success rs + skipped rs + errors rs \<le> int (store_calls tr) \<and>
            store_calls tr \<le> length pages)"
proof (intro conjI allI impI)
  fix page_id page rs
  have wf: "\<forall>result. store_notion_page db page_id page database_id force = Inr result \<longrightarrow>
              well_formed_result result"
    using assms by blast
  note c = store_page_counters [OF wf, of rs, unfolded Let_def]
  from c show "success rs \<le> success (fst (store_page db database_id force page_id page rs))" by blast
  from c show "skipped rs \<le> skipped (fst (store_page db database_id force page_id page rs))" by blast
  from c show "errors rs \<le> errors (fst (store_page db database_id force page_id page rs))" by blast
  from c show "success (fst (store_page db database_id force page_id page rs))
              + skipped (fst (store_page db database_id force page_id page rs))
              + errors (fst (store_page db database_id force page_id page rs))
              \<le> success rs + skipped rs + errors rs + 1" by blast
next
  fix page_id page rs result status
  assume "store_notion_page db page_id page database_id force = Inr result \<and>
          map_of result ''status'' = Some status \<and>
          status \<noteq> PStr ''success'' \<and> status \<noteq> PStr ''skipped''"
  then show "fst (store_page db database_id force page_id page rs) = rs"
    using store_page_other_status by blast
next
  fix page_id page rs
  assume "total_chunks (fst (store_page db database_id force page_id page rs)) \<noteq> total_chunks rs"
  then show "\<exists>result. store_notion_page db page_id page database_id force = Inr result \<and>
                      map_of result ''status'' = Some (PStr ''success'')"
    by (rule store_page_total_chunks)
next
  fix pages failure rs tr
  assume s: "sync_pages notion utils db database_id force pages sync_results_init = (failure, rs, tr)"
  from sync_pages_bound [OF assms s]
  show "success rs + skipped rs + errors rs \<le> int (store_calls tr)"
    by (simp add: sync_results_init_def)
  from sync_pages_bound [OF assms s] show "store_calls tr \<le> length pages" by simp
qed

theorem sync_counters_bounded_witness:
  "sync_pages (paged_client []) sample_utils mixed_db ''db'' True (sample_pages 4) sync_results_init
     = (None, \<lparr>success = 1, skipped = 1, errors = 1, total_chunks = 3\<rparr>,
        snd (snd (sync_pages (paged_client []) sample_utils mixed_db ''db'' True (sample_pages 4)
                    sync_results_init))) \<and>
   store_calls (snd (snd (sync_pages (paged_client []) sample_utils mixed_db ''db'' True (sample_pages 4)
                     sync_results_init))) = 4 \<and>
   (1 :: int) + 1 + 1 \<le> int (store_calls (snd (snd (sync_pages (paged_client []) sample_utils mixed_db
                     ''db'' True (sample_pages 4) sync_results_init))))"
proof -
  have wf: "\<forall>page_id page result.
      store_notion_page mixed_db page_id page ''db'' True = Inr result \<longrightarrow> well_formed_result result"
    by (auto simp: mixed_db_def sample_db_def well_formed_result_def split: if_splits)
  have r: "fst (sync_pages (paged_client []) sample_utils mixed_db ''db'' True (sample_pages 4) sync_results_init)
             = None"
    by code_simp
  have c: "fst (snd (sync_pages (paged_client []) sample_utils mixed_db ''db'' True (sample_pages 4)
                       sync_results_init))
             = \<lparr>success = 1, skipped = 1, errors = 1, total_chunks = 3\<rparr>"
    by code_simp
  have n: "store_calls (snd (snd (sync_pages (paged_client []) sample_utils mixed_db ''db'' True
                       (sample_pages 4) sync_results_init))) = 4"
    by code_simp
  have e: "sync_pages (paged_client []) sample_utils mixed_db ''db'' True (sample_pages 4) sync_results_init
     = (None, \<lparr>success = 1, skipped = 1, errors = 1, total_chunks = 3\<rparr>,
        snd (snd (sync_pages (paged_client []) sample_utils mixed_db ''db'' True (sample_pages 4)
                    sync_results_init)))"
    using r c by (metis prod.collapse)
  from sync_counters_bounded [OF wf, of "paged_client []" sample_utils] e n
  show ?thesis by simp
qed

text \<open>
  One page, and a store whose result has the status \<open>success\<close> and no
  \<open>chunks_stored\<close>: line 163 counts the page as a success, line 164 raises, and the
  handler counts it as an error.  The three counters add up to 2 after one page.
\<close>

theorem sync_counters_counterexample:
  "sync_pages (paged_client []) sample_utils terse_db ''db'' True [PDict [(''id'', PInt 0)]] sync_results_init
     = (None, \<lparr>success = 1, skipped = 0, errors = 1, total_chunks = 0\<rparr>,
        [BlocksChildrenList (PInt 0), ExtractBlockContent (PStr ''block''),
         StoreNotionPage (PInt 0) (PDict [(''id'', PInt 0), (''content'', PList [PStr ''block''])]) ''db'' True,
         LogError [Lit ''Error syncing page '', Val (PInt 0), Lit '': '', Str (KeyError ''chunks_stored'')]])"
  by code_simp

text \<open>
  C1 on a batch of two pages where the listing of the blocks of the first page raises.
  The call stands before the \<^verbatim>\<open>try\<close> of line 154, so the exception leaves the
  \<^verbatim>\<open>for\<close> loop and is caught by the handler of line 174: the error counter stays at
  0, and the second page is neither listed nor stored.
\<close>

theorem block_listing_failure_aborts_batch:
  "sync_database_background (unlisted_client (sample_pages 2)) sample_utils ''db'' True (Some 100) sample_db
       (unlisted_client (sample_pages 2))
     = Some \<lparr>run_pages = [PDict [(''id'', PInt 0)], PDict [(''id'', PInt 1)]],
             run_results = \<lparr>success = 0, skipped = 0, errors = 0, total_chunks = 0\<rparr>,
             run_failure = Some (Raised ''object not found''),
             run_trace =
               [LogInfo [Lit ''Starting background sync for database '', Val (PStr ''db'')],
                DatabasesQuery [(''database_id'', PStr ''db''), (''page_size'', PInt 100)],
                LogInfo [Lit ''Found '', Num 2, Lit '' pages to sync''],
                BlocksChildrenList (PInt 0),
                LogError [Lit ''Error in background database sync: '', Str (Raised ''object not found'')]]\<rparr>"
  by code_simp

section \<open>The background task: store calls of a run\<close>

lemma fetch_step_no_store:
  "fetch_step client database_id limit st = r \<Longrightarrow>
   store_flags (fetch_trace (case r of Inl (e, s) \<Rightarrow> s | Inr s \<Rightarrow> s)) = store_flags (fetch_trace st) \<and>
   store_calls (fetch_trace (case r of Inl (e, s) \<Rightarrow> s | Inr s \<Rightarrow> s)) = store_calls (fetch_trace st)"
  by (auto simp: fetch_step_def Let_def store_flags_append store_calls_append split: sum.splits)

lemma fetch_loop_no_store:
  "fetch_loop client database_id limit st = Some r \<Longrightarrow>
   store_flags (fetch_trace (case r of Inl (e, s) \<Rightarrow> s | Inr s \<Rightarrow> s)) = store_flags (fetch_trace st) \<and>
   store_calls (fetch_trace (case r of Inl (e, s) \<Rightarrow> s | Inr s \<Rightarrow> s)) = store_calls (fetch_trace st)"
proof (induction rule: fetch_loop.raw_induct [rotated 1, consumes 1])
  case (1 loop client database_id limit st r)
  show ?case
  proof (cases "fetch_continues limit st")
    case False
    with 1(2) show ?thesis by auto
  next
    case True
    note cont = this
    show ?thesis
    proof (cases "fetch_step client database_id limit st")
      case (Inl failure)
      with 1(2) cont have "r = Inl failure" by simp
      with fetch_step_no_store [OF Inl] show ?thesis by simp
    next
      case (Inr st')
      note step = fetch_step_no_store [OF Inr]
      show ?thesis
      proof (cases "limit_reached limit st'")
        case True
        with 1(2) cont Inr have "r = Inr st'" by simp
        with step show ?thesis by simp
      next
        case False
        with 1(2) cont Inr have "loop client database_id limit st' = Some r" by simp
        from 1(1) [OF this] step show ?thesis by simp
      qed
    qed
  qed
qed

lemma background_store_flags:
  assumes "sync_database_background notion utils database_id force limit db client = Some run"
  shows "store_flags (run_trace run) = replicate (store_calls (run_trace run)) force"
proof (cases "fetch_loop client database_id limit fetch_init")
  case None
  with assms show ?thesis by (simp add: sync_database_background_def)
next
  case (Some r)
  note f = fetch_loop_no_store [OF Some]
  show ?thesis
  proof (cases r)
    case (Inl failure)
    obtain e st where "failure = (e, st)" by (cases failure)
    with assms Some Inl f show ?thesis
      by (auto simp: sync_database_background_def fetch_init_def background_failed_def
          store_flags_append store_calls_append)
  next
    case (Inr st)
    obtain failure rs tr where
      s: "sync_pages notion utils db database_id force (all_pages st) sync_results_init = (failure, rs, tr)"
      by (cases "sync_pages notion utils db database_id force (all_pages st) sync_results_init") auto
    from assms Some Inr f s sync_pages_flags [OF s] show ?thesis
      by (cases failure)
        (auto simp: sync_database_background_def fetch_init_def background_failed_def
          store_flags_append store_calls_append)
  qed
qed

text \<open>
  C4: the sync trigger returns the acknowledgment \<open>status = started\<close>, \<open>message\<close>,
  \<open>force_update\<close> with the request's \<open>force_update\<close>, and has made no call to a
  collaborator by then (its own events are empty: the pages are processed by the tasks it
  leaves in the queue, one per database identifier).  Every store call of every run of
  one of these tasks carries the request's \<open>force_update\<close>.
\<close>

theorem sync_passes_force_update:
  "sync_database append_task database_ids request queue db client =
     (Inr [(''status'', PStr ''started''), (''message'', PStr ''notion synced''),
           (''force_update'', PBool (force_update request))],
      queue @ map (\<lambda>database_id.
                \<lparr>task_database_id = database_id, task_force_update = force_update request,
                 task_page_limit = page_limit request, task_db = db, task_client = client\<rparr>)
              database_ids,
      []) \<and>
   (\<forall>task run. task \<in> set (drop (length queue)
                  (fst (snd (sync_database append_task database_ids request queue db client)))) \<and>
               run_task notion utils task = Some run \<longrightarrow>
      store_flags (run_trace run) = replicate (store_calls (run_trace run)) (force_update request))"
proof -
  have "sync_database append_task database_ids request queue db client =
     (Inr [(''status'', PStr ''started''), (''message'', PStr ''notion synced''),
           (''force_update'', PBool (force_update request))],
      queue @ map (\<lambda>database_id.
                \<lparr>task_database_id = database_id, task_force_update = force_update request,
                 task_page_limit = page_limit request, task_db = db, task_client = client\<rparr>)
              database_ids,
      [])"
    by (simp add: sync_database_def add_tasks_append_task sync_acknowledgment_def)
  moreover have "store_flags (run_trace run) = replicate (store_calls (run_trace run)) (force_update request)"
    if "task \<in> set (map (\<lambda>database_id.
                \<lparr>task_database_id = database_id, task_force_update = force_update request,
                 task_page_limit = page_limit request, task_db = db, task_client = client\<rparr>)
              database_ids)"
      and "run_task notion utils task = Some run" for task run
  proof -
    from that(1) have "task_force_update task = force_update request" by auto
    with that(2) background_store_flags show ?thesis
      by (simp add: run_task_def)
  qed
  ultimately show ?thesis by auto
qed

theorem sync_passes_force_update_witness:
  "hd (fst (snd (sync_database append_task [''db''] \<lparr>force_update = False, page_limit = Some 5\<rparr> []
         sample_db (paged_client (sample_pages 12)))))
     \<in> set (drop (length ([] :: sync_task list))
         (fst (snd (sync_database append_task [''db''] \<lparr>force_update = False, page_limit = Some 5\<rparr> []
            sample_db (paged_client (sample_pages 12)))))) \<and>
   map_option (\<lambda>run. store_flags (run_trace run))
     (run_task (paged_client (sample_pages 12)) sample_utils
        (hd (fst (snd (sync_database append_task [''db''] \<lparr>force_update = False, page_limit = Some 5\<rparr> []
           sample_db (paged_client (sample_pages 12)))))))
     = Some [False, False, False, False, False]"
proof -
  let ?task = "\<lparr>task_database_id = ''db'', task_force_update = False, task_page_limit = Some 5,
                 task_db = sample_db, task_client = paged_client (sample_pages 12)\<rparr>"
  have q: "fst (snd (sync_database append_task [''db''] \<lparr>force_update = False, page_limit = Some 5\<rparr> []
         sample_db (paged_client (sample_pages 12)))) = [?task]"
    by (simp add: sync_database_def append_task_def)
  have "map_option (\<lambda>run. store_flags (run_trace run))
          (sync_database_background (paged_client (sample_pages 12)) sample_utils ''db'' False (Some 5)
             sample_db (paged_client (sample_pages 12)))
        = Some [False, False, False, False, False]"
    by code_simp
  then obtain run where r: "run_task (paged_client (sample_pages 12)) sample_utils ?task = Some run"
    and f: "store_flags (run_trace run) = [False, False, False, False, False]"
    by (auto simp: run_task_def)
  from sync_passes_force_update [of "[''db'']" "\<lparr>force_update = False, page_limit = Some 5\<rparr>" "[]"
      sample_db "paged_client (sample_pages 12)" "paged_client (sample_pages 12)" sample_utils]
  have "store_flags (run_trace run) = replicate (store_calls (run_trace run)) False"
    using q r by simp
  with q r f show ?thesis by simp
qed

section \<open>Fetching the pages: the limit and the quota\<close>














end
